theory Spec2Isabelle
  imports Main
begin

section \<open>Exceptions and results\<close>

text \<open>
  The script \<^verbatim>\<open>plot.py\<close> has no \<^verbatim>\<open>try\<close> statement. Every exception of
  the source is a value here: a computation that returns a value has type
  \<open>exn + 'a\<close> (\<open>Inl\<close> is the exception), and a procedure that writes files or prints
  returns the effects it performed and the exception that ended it, if any.
\<close>

datatype exn =
    SystemExit nat
  | IndexError
  | ValueError
  | ZeroDivisionError
  | RuntimeError
  | External string

definition ebind :: "exn + 'a \<Rightarrow> ('a \<Rightarrow> exn + 'b) \<Rightarrow> exn + 'b" where
  "ebind m f = (case m of Inl e \<Rightarrow> Inl e | Inr x \<Rightarrow> f x)"

text \<open>A list comprehension \<^verbatim>\<open>[f(x) for x in xs]\<close> whose \<^verbatim>\<open>f\<close> may raise: the
  first exception ends it.\<close>

primrec list_comp :: "('a \<Rightarrow> exn + 'b) \<Rightarrow> 'a list \<Rightarrow> exn + 'b list" where
  "list_comp f [] = Inr []"
| "list_comp f (x # xs) =
     (case f x of
        Inl e \<Rightarrow> Inl e
      | Inr y \<Rightarrow> (case list_comp f xs of Inl e \<Rightarrow> Inl e | Inr ys \<Rightarrow> Inr (y # ys)))"

text \<open>Python's truth value of \<^verbatim>\<open>args.output\<close>, which is \<^verbatim>\<open>None\<close> or a string:
  \<^verbatim>\<open>None\<close> and the empty string are false.\<close>

definition truthy :: "string option \<Rightarrow> bool" where
  "truthy v = (case v of None \<Rightarrow> False | Some s \<Rightarrow> s \<noteq> [])"

section \<open>Paths (posixpath)\<close>

text \<open>\<^verbatim>\<open>os.path.join(a, b)\<close> with two arguments.\<close>

definition os_path_join :: "string \<Rightarrow> string \<Rightarrow> string" where
  "os_path_join a b =
     (if b \<noteq> [] \<and> hd b = CHR ''/'' then b
      else if a = [] \<or> last a = CHR ''/'' then a @ b
      else a @ ''/'' @ b)"

text \<open>\<^verbatim>\<open>os.path.dirname(p)\<close>: everything up to the last slash, with the trailing
  slashes removed unless nothing else is left.\<close>

definition os_path_dirname :: "string \<Rightarrow> string" where
  "os_path_dirname p =
     (let head = rev (dropWhile (\<lambda>c. c \<noteq> CHR ''/'') (rev p))
      in if head \<noteq> [] \<and> \<not> list_all (\<lambda>c. c = CHR ''/'') head
         then rev (dropWhile (\<lambda>c. c = CHR ''/'') (rev head))
         else head)"

section \<open>The command line\<close>

text \<open>
  The namespace \<^verbatim>\<open>args\<close> that \<^verbatim>\<open>parser.parse_args()\<close> returns. The analysis
  functions read it as a global; here it is passed to them.
\<close>

record args =
  type :: string
  run_dir :: string
  data :: "string option"
  "output" :: "string option"

text \<open>The command line after tokenising: the positional words in order, and the values
  of \<^verbatim>\<open>-d/--data\<close> and \<^verbatim>\<open>-o/--output\<close> where given.\<close>

record command_line =
  positionals :: "string list"
  data_flag :: "string option"
  output_flag :: "string option"

definition choices :: "string list" where
  "choices = [''train'', ''confusion'', ''status'', ''multi-eval'', ''ablation'']"

text \<open>The parser of lines 188 to 193: \<^verbatim>\<open>type\<close> is required and restricted to
  \<^verbatim>\<open>choices\<close>, \<^verbatim>\<open>run_dir\<close> is optional (\<^verbatim>\<open>nargs='?'\<close>) with default
  \<^verbatim>\<open>'runs/'\<close>. A rejected command line ends the process with status 2.\<close>

definition parse_args :: "command_line \<Rightarrow> exn + args" where
  "parse_args c =
     (case positionals c of
        [] \<Rightarrow> Inl (SystemExit 2)
      | [t] \<Rightarrow>
          if t \<in> set choices
          then Inr \<lparr>type = t, run_dir = ''runs/'', data = data_flag c, output = output_flag c\<rparr>
          else Inl (SystemExit 2)
      | [t, r] \<Rightarrow>
          if t \<in> set choices
          then Inr \<lparr>type = t, run_dir = r, data = data_flag c, output = output_flag c\<rparr>
          else Inl (SystemExit 2)
      | _ \<Rightarrow> Inl (SystemExit 2))"

section \<open>Data of the external training system\<close>

record params =
  cuda :: bool

text \<open>What \<^verbatim>\<open>get_run_info\<close> returns: the tuple
  \<^verbatim>\<open>(run_dir, loss, accuracy, label, best_model, params)\<close>.\<close>

type_synonym 'v run_info = "string \<times> 'v list \<times> 'v list \<times> string \<times> string \<times> params"

record dataset =
  len :: nat
  skip :: nat
  action_descriptions :: "string list"

text \<open>A loader yields batches \<^verbatim>\<open>(x, y)\<close>: \<^verbatim>\<open>y\<close> holds the class index of each sample of
  the batch. A model maps \<^verbatim>\<open>x\<close> to logits, one row per sample and one column per class.\<close>

record 'x loader =
  batches :: "('x \<times> nat list) list"
  dataset :: dataset

type_synonym ('x, 'v) model = "'x \<Rightarrow> exn + 'v list list"

section \<open>External collaborators and library functions\<close>

text \<open>
  The functions the script calls and does not define: \<^verbatim>\<open>utils\<close> of the training
  system, glob2, torch, sklearn, numpy's mean, string formatting of a float, and pandas.
  \<open>'v\<close> is the type of floating-point values, \<open>'df\<close> the type of pandas objects.
\<close>

record ('x, 'v, 'df) lib =
  glob :: "string \<Rightarrow> string list"
  get_run_info :: "string \<Rightarrow> exn + 'v run_info"
  load_run :: "string \<Rightarrow> string option \<Rightarrow> string option
                \<Rightarrow> exn + ('v run_info \<times> ('x, 'v) model \<times> 'x loader)"
  get_run_summary :: "'v run_info \<Rightarrow> 'v option \<Rightarrow> exn + 'df"
  softmax :: "'v list list \<Rightarrow> 'v list list"
  accuracy_score :: "nat list \<Rightarrow> nat list \<Rightarrow> exn + 'v"
  confusion_matrix :: "nat list \<Rightarrow> nat list \<Rightarrow> exn + nat list list"
  np_mean :: "'v list \<Rightarrow> 'v"
  format_percent :: "'v \<Rightarrow> string"
  pd_concat :: "'df list \<Rightarrow> exn + 'df"
  sort_values :: "'df \<Rightarrow> string \<Rightarrow> bool \<Rightarrow> exn + 'df"
  pivot_table :: "'df \<Rightarrow> string \<Rightarrow> string \<Rightarrow> string list \<Rightarrow> exn + 'df"
  df_mean :: "'df \<Rightarrow> exn + 'df"

section \<open>Figures and effects\<close>

record 'v axes =
  title :: string
  lines :: "('v list \<times> string) list"
  ylim :: "(int \<times> int) option"
  legend :: "(string \<times> nat) option"

text \<open>The figure of \<^verbatim>\<open>confusion_plot\<close>. A minor tick \<open>k\<close> stands at \<open>k + 0.5\<close>.\<close>

record heatmap_figure =
  figsize :: "nat \<times> nat"
  heat_title :: string
  heat_data :: "nat list list"
  annot :: bool
  fmt :: string
  mask :: "bool list list"
  cbar :: bool
  minor_ticks :: "nat list"
  ticks :: "nat list"
  ticklabels :: "string list"
  xticklabels_rotation :: nat
  ylabel :: string
  xlabel :: string
  minor_grid :: bool

text \<open>\<^verbatim>\<open>plt.subplots(2, 1)\<close> gives two axes, one above the other.\<close>

datatype 'v figure =
    Subplots_2_1 "'v axes" "'v axes"
  | Heatmap heatmap_figure

text \<open>\<^verbatim>\<open>savefig\<close> with the file name and \<^verbatim>\<open>bbox_inches\<close> where given,
  \<^verbatim>\<open>to_csv\<close> with the path and \<^verbatim>\<open>index\<close>, and \<^verbatim>\<open>print\<close> to standard output.\<close>

datatype ('v, 'df) effect =
    Savefig string "string option" "'v figure"
  | To_csv string 'df bool
  | Print 'df

text \<open>What a procedure did: its effects in order, and the exception that ended it, if
  any. The calls that draw, write or print are taken to succeed.\<close>

type_synonym ('v, 'df) outcome = "('v, 'df) effect list \<times> exn option"

text \<open>One statement after another: an exception in the first skips the second.\<close>

definition seq :: "('v, 'df) outcome \<Rightarrow> ('v, 'df) outcome \<Rightarrow> ('v, 'df) outcome" where
  "seq p q =
     (case p of
        (es, Some e) \<Rightarrow> (es, Some e)
      | (es, None) \<Rightarrow> (case q of (es', r) \<Rightarrow> (es @ es', r)))"

definition when_then :: "bool \<Rightarrow> ('v, 'df) outcome \<Rightarrow> ('v, 'df) outcome" where
  "when_then b p = (if b then p else ([], None))"

section \<open>train\_plot\<close>

definition train_plot :: "('x, 'v, 'df) lib \<Rightarrow> string list \<Rightarrow> ('v, 'df) outcome" where
  "train_plot lib runs =
     (case list_comp (get_run_info lib) runs of
        Inl e \<Rightarrow> ([], Some e)
      | Inr run_infos \<Rightarrow>
          let ax1 = \<lparr>title = ''Evaluation Loss'', lines = [], ylim = None, legend = None\<rparr>;
              ax2 = \<lparr>title = ''Evaluation Accuracy'', lines = [], ylim = None, legend = None\<rparr>;
              (ax1, ax2) =
                foldl (\<lambda>(ax1, ax2) (run_dir', loss, accuracy, label, best_model, params').
                         (ax1\<lparr>lines := lines ax1 @ [(loss, label)]\<rparr>,
                          ax2\<lparr>lines := lines ax2 @ [(accuracy, label)]\<rparr>))
                      (ax1, ax2) run_infos;
              ax2 = ax2\<lparr>ylim := Some (0, 100)\<rparr>;
              ax2 = ax2\<lparr>legend := Some (''best'', 6)\<rparr>
          in ([Savefig ''train_progress.pdf'' None (Subplots_2_1 ax1 ax2)], None))"

section \<open>predict\<close>

text \<open>The index of the first greatest element, as \<^verbatim>\<open>torch.max\<close> and
  \<^verbatim>\<open>np.argmax\<close> return it.\<close>

fun first_max_index :: "'v::linorder list \<Rightarrow> nat" where
  "first_max_index [] = 0"
| "first_max_index (x # xs) =
     (if list_all (\<lambda>y. y \<le> x) xs then 0 else Suc (first_max_index xs))"

text \<open>\<^verbatim>\<open>_, y_hat = torch.max(logits, 1)\<close>: no maximum over an empty dimension.\<close>

definition torch_max_1 :: "'v::linorder list list \<Rightarrow> exn + nat list" where
  "torch_max_1 logits =
     (if list_ex (\<lambda>row. row = []) logits then Inl RuntimeError
      else Inr (map first_max_index logits))"

text \<open>\<^verbatim>\<open>t.data[0]\<close> of a one-dimensional tensor.\<close>

definition data_0 :: "'a list \<Rightarrow> exn + 'a" where
  "data_0 t = (case t of [] \<Rightarrow> Inl IndexError | a # _ \<Rightarrow> Inr a)"

text \<open>The body of the loop of \<^verbatim>\<open>predict\<close>, lines 45 to 64, for one batch: the
  entries it appends to \<^verbatim>\<open>predictions\<close>, \<^verbatim>\<open>targets\<close> and \<^verbatim>\<open>confidences\<close>.
  Moving a tensor between devices (\<^verbatim>\<open>cuda\<close>, \<^verbatim>\<open>cpu\<close>) and wrapping it in a
  \<^verbatim>\<open>Variable\<close> leave its values as they are.\<close>

definition predict_batch ::
  "('x, 'v::linorder, 'df) lib \<Rightarrow> ('x, 'v) model \<Rightarrow> 'x \<times> nat list
     \<Rightarrow> exn + (nat \<times> nat \<times> 'v list list)" where
  "predict_batch lib model b =
     (case b of (x, y) \<Rightarrow>
        ebind (model x) (\<lambda>logits.
          let confidence = softmax lib logits in
          ebind (torch_max_1 logits) (\<lambda>y_hat.
          ebind (data_0 y) (\<lambda>target.
          ebind (data_0 y_hat) (\<lambda>prediction.
            Inr (prediction, target, confidence))))))"

text \<open>The loop over the batches the loader yields, with the three lists built so far.
  \<^verbatim>\<open>tqdm\<close> yields the batches of the loader unchanged; the progress bar it draws on
  standard error is not part of the model.\<close>

primrec predict_loop ::
  "('x, 'v::linorder, 'df) lib \<Rightarrow> ('x, 'v) model \<Rightarrow> ('x \<times> nat list) list
     \<Rightarrow> nat list \<times> nat list \<times> 'v list list list
     \<Rightarrow> exn + (nat list \<times> nat list \<times> 'v list list list)" where
  "predict_loop lib model [] acc = Inr acc"
| "predict_loop lib model (b # bs) acc =
     (case acc of (predictions, targets, confidences) \<Rightarrow>
        ebind (predict_batch lib model b) (\<lambda>(prediction, target, confidence).
          predict_loop lib model bs
            (predictions @ [prediction], targets @ [target], confidences @ [confidence])))"

definition predict ::
  "('x, 'v::linorder, 'df) lib \<Rightarrow> ('x, 'v) model \<Rightarrow> 'x loader \<Rightarrow> bool
     \<Rightarrow> exn + (nat list \<times> nat list \<times> 'v list list list)" where
  "predict lib model loader cuda' = predict_loop lib model (batches loader) ([], [], [])"

section \<open>confusion\_plot\<close>

text \<open>The body of the loop, lines 71 to 104: everything that can raise happens before
  the figure is saved.\<close>

definition confusion_plot_run ::
  "('x, 'v::linorder, 'df) lib \<Rightarrow> args \<Rightarrow> string \<Rightarrow> exn + ('v, 'df) effect" where
  "confusion_plot_run lib args run =
     ebind (load_run lib run (data args) None) (\<lambda>(run_info, model, loader).
       case run_info of (run_dir', _, _, label, _, params') \<Rightarrow>
       let dataset' = dataset loader in
       ebind (predict lib model loader (cuda params')) (\<lambda>(predictions, targets, _).
       ebind (accuracy_score lib targets predictions) (\<lambda>overall_accuracy.
       ebind (confusion_matrix lib targets predictions) (\<lambda>confusion.
         let mask' = map (map (\<lambda>c. c = 0)) confusion;
             classes = action_descriptions dataset';
             tick_marks = [0..<length classes];
             fig = \<lparr>figsize = (30, 30),
                    heat_title = label @ '': (Overall Accuracy: ''
                                   @ format_percent lib overall_accuracy,
                    heat_data = confusion, annot = True, fmt = ''d'', mask = mask',
                    cbar = False,
                    minor_ticks = tick_marks, ticks = tick_marks, ticklabels = classes,
                    xticklabels_rotation = 90,
                    ylabel = ''True label'', xlabel = ''Predicted label'',
                    minor_grid = True\<rparr>;
             plot_fname = os_path_join run_dir' ''confusion.pdf''
         in Inr (Savefig plot_fname (Some ''tight'') (Heatmap fig))))))"

primrec confusion_plot ::
  "('x, 'v::linorder, 'df) lib \<Rightarrow> args \<Rightarrow> string list \<Rightarrow> ('v, 'df) outcome" where
  "confusion_plot lib args [] = ([], None)"
| "confusion_plot lib args (run # runs) =
     (case confusion_plot_run lib args run of
        Inl e \<Rightarrow> ([], Some e)
      | Inr saved \<Rightarrow> seq ([saved], None) (confusion_plot lib args runs))"

section \<open>display\_status\<close>

text \<open>Lines 110 to 112: the table that is then written or printed.\<close>

definition status_summary :: "('x, 'v, 'df) lib \<Rightarrow> string list \<Rightarrow> exn + 'df" where
  "status_summary lib runs =
     ebind (list_comp (get_run_info lib) runs) (\<lambda>infos.
     ebind (list_comp (\<lambda>i. get_run_summary lib i None) infos) (\<lambda>summaries.
     ebind (pd_concat lib summaries) (\<lambda>df.
       sort_values lib df ''best_acc'' False)))"

definition display_status ::
  "('x, 'v, 'df) lib \<Rightarrow> args \<Rightarrow> string list \<Rightarrow> ('v, 'df) outcome" where
  "display_status lib args runs =
     (case status_summary lib runs of
        Inl e \<Rightarrow> ([], Some e)
      | Inr summary \<Rightarrow>
          if truthy (output args)
          then ([To_csv (the (output args)) summary False], None)
          else ([Print summary], None))"

section \<open>offset\_eval\<close>

text \<open>\<^verbatim>\<open>np.concatenate(arrays, axis=0)\<close> of two-dimensional arrays, each a list of
  rows: it needs one array at least, and rows of one width.\<close>

definition np_concatenate :: "'v list list list \<Rightarrow> exn + 'v list list" where
  "np_concatenate arrays =
     (if arrays = [] then Inl ValueError
      else let rows = concat arrays
           in if list_all (\<lambda>r. length r = length (hd rows)) rows then Inr rows
              else Inl ValueError)"

text \<open>\<^verbatim>\<open>arr.reshape(a, b, -1)\<close>: the elements in row-major order are cut into
  \<open>a\<close> blocks of \<open>b\<close> rows; the width of a row is what is left, the number of elements
  divided by \<open>a * b\<close>. numpy refuses when \<open>a * b\<close> is zero or does not divide the number
  of elements.\<close>

definition np_reshape :: "nat \<Rightarrow> nat \<Rightarrow> 'v list list \<Rightarrow> exn + 'v list list list" where
  "np_reshape a b arr =
     (let flat = concat arr; known = a * b
      in if known = 0 \<or> length flat mod known \<noteq> 0 then Inl ValueError
         else let k = length flat div known
              in Inr (map (\<lambda>i. map (\<lambda>j. take k (drop ((i * b + j) * k) flat)) [0..<b])
                        [0..<a]))"

text \<open>\<^verbatim>\<open>arr.mean(axis=0)\<close> of a three-dimensional array: entry \<open>(j, k)\<close> is the mean of
  the entries \<open>(i, j, k)\<close> over \<open>i\<close>.\<close>

definition mean_axis_0 :: "('x, 'v, 'df) lib \<Rightarrow> 'v list list list \<Rightarrow> 'v list list" where
  "mean_axis_0 lib arr = map (\<lambda>rows. map (np_mean lib) (transpose rows)) (transpose arr)"

text \<open>\<^verbatim>\<open>np.argmax(arr, axis=1)\<close>: no argmax of an empty row.\<close>

definition np_argmax_1 :: "'v::linorder list list \<Rightarrow> exn + nat list" where
  "np_argmax_1 arr =
     (if list_ex (\<lambda>row. row = []) arr then Inl ValueError
      else Inr (map first_max_index arr))"

text \<open>Lines 131 to 136: the multi-offset accuracy of one run, from the data set and
  what \<^verbatim>\<open>predict\<close> returned.\<close>

definition offset_accuracy ::
  "('x, 'v::linorder, 'df) lib \<Rightarrow> dataset \<Rightarrow> nat list \<Rightarrow> 'v list list list \<Rightarrow> exn + 'v" where
  "offset_accuracy lib dataset' targets confidences =
     (if skip dataset' = 0 then Inl ZeroDivisionError
      else
        let n_samples = len dataset' div skip dataset';
            targets = take n_samples targets
        in ebind (np_concatenate confidences) (\<lambda>confidences.
           ebind (np_reshape (skip dataset') n_samples confidences) (\<lambda>reshaped.
             let confidences = mean_axis_0 lib reshaped
             in ebind (np_argmax_1 confidences) (\<lambda>predictions.
                  accuracy_score lib targets predictions))))"

text \<open>The body of the loop, lines 125 to 137.\<close>

definition offset_eval_run ::
  "('x, 'v::linorder, 'df) lib \<Rightarrow> args \<Rightarrow> string \<Rightarrow> exn + 'df" where
  "offset_eval_run lib args run =
     ebind (load_run lib run (data args) (Some ''all'')) (\<lambda>(run_info, model, loader).
       let params' = snd (snd (snd (snd (snd run_info))));
           dataset' = dataset loader
       in ebind (predict lib model loader (cuda params')) (\<lambda>(_, targets, confidences).
          ebind (offset_accuracy lib dataset' targets confidences) (\<lambda>multi_offset_accuracy.
            get_run_summary lib run_info (Some multi_offset_accuracy))))"

text \<open>Lines 123 to 140: the table that is then written or printed.\<close>

definition offset_summary ::
  "('x, 'v::linorder, 'df) lib \<Rightarrow> args \<Rightarrow> string list \<Rightarrow> exn + 'df" where
  "offset_summary lib args runs =
     ebind (list_comp (offset_eval_run lib args) runs) (\<lambda>summaries.
     ebind (pd_concat lib summaries) (\<lambda>df.
       sort_values lib df ''multi_offset_acc'' False))"

definition offset_eval ::
  "('x, 'v::linorder, 'df) lib \<Rightarrow> args \<Rightarrow> string list \<Rightarrow> ('v, 'df) outcome" where
  "offset_eval lib args runs =
     (case offset_summary lib args runs of
        Inl e \<Rightarrow> ([], Some e)
      | Inr summary \<Rightarrow>
          if truthy (output args)
          then ([To_csv (the (output args)) summary False], None)
          else ([Print summary], None))"

section \<open>ablation\<close>

definition ablation_params :: "string list" where
  "ablation_params = [''bidirectional'', ''embed'', ''hd'', ''layers'']"

text \<open>The loop of lines 159 to 164 over the remaining parameters \<open>ps\<close>; \<open>all_params\<close>
  is the list \<^verbatim>\<open>params\<close>, which the loop copies and never changes.\<close>

primrec ablation_loop ::
  "('x, 'v, 'df) lib \<Rightarrow> 'df \<Rightarrow> string list \<Rightarrow> string list \<Rightarrow> ('v, 'df) outcome" where
  "ablation_loop lib summary all_params [] = ([], None)"
| "ablation_loop lib summary all_params (p # ps) =
     (let rest = remove1 p all_params
      in case ebind (pivot_table lib summary ''best_acc'' p rest) (df_mean lib) of
           Inl e \<Rightarrow> ([], Some e)
         | Inr table \<Rightarrow> seq ([Print table], None) (ablation_loop lib summary all_params ps))"

definition ablation :: "('x, 'v, 'df) lib \<Rightarrow> string list \<Rightarrow> ('v, 'df) outcome" where
  "ablation lib runs =
     (case ebind (list_comp (\<lambda>r. ebind (get_run_info lib r)
                                    (\<lambda>i. get_run_summary lib i None)) runs)
                 (pd_concat lib) of
        Inl e \<Rightarrow> ([], Some e)
      | Inr summary \<Rightarrow> ablation_loop lib summary ablation_params ablation_params)"

section \<open>main\<close>

definition main_runs :: "('x, 'v, 'df) lib \<Rightarrow> args \<Rightarrow> string list" where
  "main_runs lib args =
     (let logs = glob lib (os_path_join (run_dir args) ''**/log.txt'')
      in map os_path_dirname logs)"

definition main :: "('x, 'v::linorder, 'df) lib \<Rightarrow> args \<Rightarrow> ('v, 'df) outcome" where
  "main lib args =
     (let runs = main_runs lib args
      in seq (when_then (type args = ''train'') (train_plot lib runs))
        (seq (when_then (type args = ''confusion'') (confusion_plot lib args runs))
        (seq (when_then (type args = ''status'') (display_status lib args runs))
        (seq (when_then (type args = ''multi-eval'') (offset_eval lib args runs))
             (when_then (type args = ''ablation'') (ablation lib runs))))))"

text \<open>Lines 187 to 194: parse the command line, then \<^verbatim>\<open>main(args)\<close>.\<close>

definition script :: "('x, 'v::linorder, 'df) lib \<Rightarrow> command_line \<Rightarrow> ('v, 'df) outcome" where
  "script lib c =
     (case parse_args c of
        Inl e \<Rightarrow> ([], Some e)
      | Inr args \<Rightarrow> main lib args)"

section \<open>The multi-offset accuracy as the specification words it\<close>

text \<open>\<^verbatim>\<open>arr.reshape(a, b, c)\<close> with every dimension given: numpy refuses unless the
  array holds \<open>a * b * c\<close> elements.\<close>

definition np_reshape_exact ::
  "nat \<Rightarrow> nat \<Rightarrow> nat \<Rightarrow> 'v list list \<Rightarrow> exn + 'v list list list" where
  "np_reshape_exact a b c arr =
     (let flat = concat arr
      in if length flat \<noteq> a * b * c then Inl ValueError
         else Inr (map (\<lambda>i. map (\<lambda>j. take c (drop ((i * b + j) * c) flat)) [0..<b])
                     [0..<a]))"


section \<open>Reading effects\<close>


definition is_print :: "('v, 'df) effect \<Rightarrow> bool" where
  "is_print eff = (case eff of Print _ \<Rightarrow> True | _ \<Rightarrow> False)"

section \<open>A small installation\<close>

text \<open>
  Two runs under \<^verbatim>\<open>runs/\<close>, a model over two classes and integer values in place of
  floats. A pandas table is a list of rows, a row a list of columns with their values.
\<close>

type_synonym table = "(string \<times> int) list list"

definition cell :: "string \<Rightarrow> (string \<times> int) list \<Rightarrow> int" where
  "cell c row = (case map_of row c of None \<Rightarrow> 0 | Some v \<Rightarrow> v)"


definition example_info :: "string \<Rightarrow> exn + int run_info" where
  "example_info r =
     (if r = ''runs/a'' then Inr (r, [3, 2], [50, 70], ''a'', ''runs/a/best'', \<lparr>cuda = False\<rparr>)
      else if r = ''runs/b'' then Inr (r, [4, 1], [40, 90], ''b'', ''runs/b/best'', \<lparr>cuda = False\<rparr>)
      else Inl (External ''FileNotFoundError''))"

definition example_model :: "(nat, int) model" where
  "example_model x = (if even x then Inr [[2, 1]] else Inr [[0, 3]])"

definition example_loader :: "string option \<Rightarrow> nat loader" where
  "example_loader data_offset =
     (if data_offset = Some ''all''
      then \<lparr>batches = [(0, [0]), (1, [1]), (2, [0]), (3, [0])],
            dataset = \<lparr>len = 4, skip = 2, action_descriptions = [''walk'', ''run'']\<rparr>\<rparr>
      else \<lparr>batches = [(0, [0]), (1, [0])],
            dataset = \<lparr>len = 2, skip = 1, action_descriptions = [''walk'', ''run'']\<rparr>\<rparr>)"

definition example_accuracy :: "nat list \<Rightarrow> nat list \<Rightarrow> exn + int" where
  "example_accuracy ts ps =
     (if length ts \<noteq> length ps then Inl ValueError
      else Inr (int (100 * length (filter (\<lambda>(t, p). t = p) (zip ts ps)) div length ts)))"

definition example_confusion :: "nat list \<Rightarrow> nat list \<Rightarrow> exn + nat list list" where
  "example_confusion ts ps =
     (if length ts \<noteq> length ps then Inl ValueError
      else let labels = [0..<Suc (fold max (ts @ ps) 0)]
           in Inr (map (\<lambda>i. map (\<lambda>j. length (filter (\<lambda>(t, p). t = i \<and> p = j) (zip ts ps)))
                                labels) labels))"

definition example_lib :: "(nat, int, table) lib" where
  "example_lib =
     \<lparr>glob = (\<lambda>p. if p = ''runs/**/log.txt'' then [''runs/a/log.txt'', ''runs/b/log.txt'']
                  else []),
      get_run_info = example_info,
      load_run = (\<lambda>r d data_offset.
         ebind (example_info r) (\<lambda>i. Inr (i, example_model, example_loader data_offset))),
      get_run_summary = (\<lambda>(r, loss, accuracy, rest) acc.
         Inr [[(''best_acc'', fold max accuracy 0),
               (''multi_offset_acc'', (case acc of None \<Rightarrow> 0 | Some v \<Rightarrow> v))]]),
      softmax = (\<lambda>logits. logits),
      accuracy_score = example_accuracy,
      confusion_matrix = example_confusion,
      np_mean = (\<lambda>xs. sum_list xs div int (length xs)),
      format_percent = (\<lambda>v. if v = 100 then ''100.00%'' else ''50.00%''),
      pd_concat = (\<lambda>dfs. if dfs = [] then Inl ValueError else Inr (concat dfs)),
      sort_values = (\<lambda>df c ascending.
         Inr (if ascending then sort_key (cell c) df else rev (sort_key (cell c) df))),
      pivot_table = (\<lambda>df v c index. Inr (map (filter (\<lambda>(k, _). k = v \<or> k = c)) df)),
      df_mean = (\<lambda>df. Inr (take 1 df))\<rparr>"

definition example_command_line :: command_line where
  "example_command_line = \<lparr>positionals = [''status''], data_flag = None, output_flag = None\<rparr>"

definition example_args :: args where
  "example_args = \<lparr>type = ''status'', run_dir = ''runs/'', data = None, output = None\<rparr>"



text \<open>A loader whose only batch holds two samples.\<close>

definition two_sample_model :: "(nat, int) model" where
  "two_sample_model x = Inr [[1, 2], [3, 0]]"

definition two_sample_loader :: "nat loader" where
  "two_sample_loader =
     \<lparr>batches = [(0, [1, 0])],
      dataset = \<lparr>len = 2, skip = 1, action_descriptions = [''walk'', ''run'']\<rparr>\<rparr>"

section \<open>Basic facts\<close>

lemma ebind_Inl [simp]: "ebind (Inl e) f = Inl e"
  by (simp add: ebind_def)

lemma ebind_Inr [simp]: "ebind (Inr x) f = f x"
  by (simp add: ebind_def)

lemma ebind_eq_Inr: "ebind m f = Inr y \<longleftrightarrow> (\<exists>x. m = Inr x \<and> f x = Inr y)"
  by (cases m) simp_all

lemma seq_skip_left [simp]: "seq ([], None) q = q"
  by (cases q) (simp add: seq_def)

lemma seq_skip_right [simp]: "seq p ([], None) = p"
proof (cases p)
  case (Pair es r)
  then show ?thesis by (cases r) (simp_all add: seq_def)
qed

lemma when_then_simps [simp]: "when_then True p = p" "when_then False p = ([], None)"
  by (simp_all add: when_then_def)

lemma main_by_type:
  "main lib a =
     (if type a = ''train'' then train_plot lib (main_runs lib a)
      else if type a = ''confusion'' then confusion_plot lib a (main_runs lib a)
      else if type a = ''status'' then display_status lib a (main_runs lib a)
      else if type a = ''multi-eval'' then offset_eval lib a (main_runs lib a)
      else if type a = ''ablation'' then ablation lib (main_runs lib a)
      else ([], None))"
  by (simp add: main_def Let_def)

lemma parse_args_accepts:
  "(\<exists>a. parse_args c = Inr a) =
     (length (positionals c) \<in> {1, 2} \<and> hd (positionals c) \<in> set choices)"
  by (auto simp: parse_args_def split: list.splits)

lemma parse_args_type:
  "parse_args c = Inr a \<Longrightarrow> type a = hd (positionals c) \<and> type a \<in> set choices"
  by (auto simp: parse_args_def split: list.splits if_splits)

lemma list_comp_Inr:
  "list_comp f xs = Inr ys \<longleftrightarrow>
     length ys = length xs \<and> (\<forall>i < length xs. f (xs ! i) = Inr (ys ! i))"
proof (induction xs arbitrary: ys)
  case Nil
  show ?case by auto
next
  case (Cons x xs)
  show ?case
  proof (cases "f x")
    case (Inl e)
    have "\<not> (\<forall>i < length (x # xs). f ((x # xs) ! i) = Inr (ys ! i))"
      using Inl by (auto intro: exI [of _ 0])
    with Inl show ?thesis by simp
  next
    case (Inr y)
    show ?thesis
    proof (cases ys)
      case Nil
      with Inr show ?thesis by (simp split: sum.splits)
    next
      case (Cons y' ys')
      have "(\<forall>i < Suc (length xs). f ((x # xs) ! i) = Inr ((y' # ys') ! i)) \<longleftrightarrow>
            f x = Inr y' \<and> (\<forall>i < length xs. f (xs ! i) = Inr (ys' ! i))"
        by (auto simp: less_Suc_eq_0_disj)
      with Inr Cons Cons.IH [of ys'] show ?thesis
        by (auto split: sum.splits)
    qed
  qed
qed

lemma list_comp_total:
  assumes "\<forall>x \<in> set xs. \<exists>y. f x = Inr y"
  shows "\<exists>ys. list_comp f xs = Inr ys"
  using assms
proof (induction xs)
  case Nil
  show ?case by simp
next
  case (Cons x xs)
  then obtain y ys where "f x = Inr y" "list_comp f xs = Inr ys"
    by auto
  then show ?case by simp
qed

section \<open>Command line and dispatch\<close>

text \<open>
  Claim C1. The positional \<^verbatim>\<open>type\<close> argument is accepted exactly when it is one of
  train, confusion, status, multi-eval and ablation (with one or two positional words on
  the command line); any other value is rejected by the parser. For an accepted command
  line, \<^verbatim>\<open>main\<close> does what exactly one analysis function does: \<^verbatim>\<open>train_plot\<close> for
  train, \<^verbatim>\<open>confusion_plot\<close> for confusion, \<^verbatim>\<open>display_status\<close> for status,
  \<^verbatim>\<open>offset_eval\<close> for multi-eval and \<^verbatim>\<open>ablation\<close> for ablation, each on the runs
  \<^verbatim>\<open>main\<close> found.
\<close>

theorem type_choices_and_dispatch:
  "((\<exists>a'. parse_args c = Inr a') =
      (length (positionals c) \<in> {1, 2} \<and>
       hd (positionals c) \<in> {''train'', ''confusion'', ''status'', ''multi-eval'', ''ablation''}))
   \<and> (parse_args c = Inr a \<longrightarrow>
        type a = hd (positionals c) \<and>
        main lib a =
          (if type a = ''train'' then train_plot lib (main_runs lib a)
           else if type a = ''confusion'' then confusion_plot lib a (main_runs lib a)
           else if type a = ''status'' then display_status lib a (main_runs lib a)
           else if type a = ''multi-eval'' then offset_eval lib a (main_runs lib a)
           else ablation lib (main_runs lib a)))"
proof (intro conjI impI)
  show "(\<exists>a'. parse_args c = Inr a') =
      (length (positionals c) \<in> {1, 2} \<and>
       hd (positionals c) \<in> {''train'', ''confusion'', ''status'', ''multi-eval'', ''ablation''})"
    using parse_args_accepts [of c] by (simp add: choices_def)
next
  assume p: "parse_args c = Inr a"
  then show "type a = hd (positionals c)"
    using parse_args_type by blast
  from p have "type a \<in> set choices"
    using parse_args_type by blast
  then show "main lib a =
          (if type a = ''train'' then train_plot lib (main_runs lib a)
           else if type a = ''confusion'' then confusion_plot lib a (main_runs lib a)
           else if type a = ''status'' then display_status lib a (main_runs lib a)
           else if type a = ''multi-eval'' then offset_eval lib a (main_runs lib a)
           else ablation lib (main_runs lib a))"
    by (simp only: main_by_type [of lib a]) (auto simp: choices_def)
qed

lemma parse_example: "parse_args example_command_line = Inr example_args"
  by (simp add: parse_args_def example_command_line_def example_args_def choices_def)

theorem type_choices_and_dispatch_witness:
  "parse_args example_command_line = Inr example_args \<and>
   type example_args = ''status'' \<and>
   main example_lib example_args =
     display_status example_lib example_args (main_runs example_lib example_args)"
proof -
  have t: "type example_args = ''status''"
    by (simp add: example_args_def)
  from type_choices_and_dispatch [of example_command_line example_args example_lib]
  have "main example_lib example_args =
     display_status example_lib example_args (main_runs example_lib example_args)"
    using parse_example t by simp
  with parse_example t show ?thesis by simp
qed

section \<open>The runs that are processed\<close>


lemma not_all_slashes:
  assumes "d \<noteq> []" and "last d \<noteq> CHR ''/''"
  shows "\<not> list_all (\<lambda>c. c = CHR ''/'') (d @ ''/'')"
proof
  assume "list_all (\<lambda>c. c = CHR ''/'') (d @ ''/'')"
  then have "\<forall>c\<in>set d. c = CHR ''/''"
    by (simp add: list_all_iff)
  moreover have "last d \<in> set d"
    using assms(1) by (rule last_in_set)
  ultimately show False
    using assms(2) by blast
qed

lemma head_of_log:
  "rev (dropWhile (\<lambda>c. c \<noteq> CHR ''/'') (rev (d @ ''/log.txt''))) = d @ ''/''"
  by simp

text \<open>The parent directory of \<^verbatim>\<open>d/log.txt\<close> is \<^verbatim>\<open>d\<close>.\<close>

lemma os_path_dirname_log:
  assumes "d \<noteq> []" and "last d \<noteq> CHR ''/''"
  shows "os_path_dirname (d @ ''/log.txt'') = d"
proof -
  obtain c cs where rd: "rev d = c # cs"
    using assms(1) by (cases "rev d") simp_all
  have "hd (rev d) = last d"
    using assms(1) by (simp add: hd_rev)
  then have rd': "rev d = last d # cs"
    using rd by simp
  have strip: "dropWhile (\<lambda>c. c = CHR ''/'') (rev d) = rev d"
    unfolding rd' using assms(2) by simp
  have "os_path_dirname (d @ ''/log.txt'') = rev (dropWhile (\<lambda>c. c = CHR ''/'') (rev (d @ ''/'')))"
    unfolding os_path_dirname_def head_of_log Let_def
    using not_all_slashes [OF assms] by simp
  also have "\<dots> = d"
    using strip by simp
  finally show ?thesis .
qed




lemma example_dirname_b: "os_path_dirname ''runs/b/log.txt'' = ''runs/b''"
  using os_path_dirname_log [of "''runs/b''"] by simp


section \<open>The small installation, evaluated\<close>

lemma example_runs: "main_runs example_lib example_args = [''runs/a'', ''runs/b'']"
  using example_dirname_b os_path_dirname_log [of "''runs/a''"]
  by (simp add: main_runs_def example_args_def os_path_join_def example_lib_def)

lemma example_status_summary:
  "status_summary example_lib [''runs/a'', ''runs/b''] =
     Inr [[(''best_acc'', 90), (''multi_offset_acc'', 0)],
          [(''best_acc'', 70), (''multi_offset_acc'', 0)]]"
  by (simp add: status_summary_def example_lib_def example_info_def cell_def)

lemma example_offset_summary:
  "offset_summary example_lib a [''runs/a'', ''runs/b''] =
     Inr [[(''best_acc'', 90), (''multi_offset_acc'', 100)],
          [(''best_acc'', 70), (''multi_offset_acc'', 100)]]"
  by code_simp

lemma example_predict:
  "predict example_lib example_model (example_loader None) False =
     Inr ([0, 1], [0, 0], [[[2, 1]], [[0, 3]]])"
  by code_simp

lemma example_batches: "batches (example_loader None) = [(0, [0]), (1, [0])]"
  by (simp add: example_loader_def)

section \<open>The multi-offset accuracy\<close>


text \<open>Where \<^verbatim>\<open>reshape(a, b, -1)\<close> succeeds, it is the reshape to the shape whose last
  dimension is the number of elements divided by \<open>a * b\<close>.\<close>

lemma np_reshape_inferred:
  assumes "np_reshape a b arr = Inr reshaped"
  shows "np_reshape_exact a b (length (concat arr) div (a * b)) arr = Inr reshaped"
proof -
  from assms have k: "a * b \<noteq> 0" "length (concat arr) mod (a * b) = 0"
    by (auto simp: np_reshape_def Let_def split: if_splits)
  from k(2) have "a * b dvd length (concat arr)"
    by (simp only: dvd_eq_mod_eq_0)
  then have "a * b * (length (concat arr) div (a * b)) = length (concat arr)"
    by (rule dvd_mult_div_cancel)
  with assms k show ?thesis
    by (simp add: np_reshape_def np_reshape_exact_def Let_def)
qed







section \<open>The confusion matrix\<close>

lemma confusion_plot_run_unfold:
  assumes "load_run lib run (data a) None =
             Inr ((run_dir', loss, accuracy, label, best_model, params'), model, loader)"
    and "predict lib model loader (cuda params') = Inr (predictions, targets, confidences)"
    and "accuracy_score lib targets predictions = Inr overall_accuracy"
    and "confusion_matrix lib targets predictions = Inr confusion"
  shows "confusion_plot_run lib a run =
     Inr (Savefig (os_path_join run_dir' ''confusion.pdf'') (Some ''tight'')
       (Heatmap
          \<lparr>figsize = (30, 30),
             heat_title = label @ '': (Overall Accuracy: '' @ format_percent lib overall_accuracy,
             heat_data = confusion, annot = True, fmt = ''d'',
             mask = map (map (\<lambda>c. c = 0)) confusion, cbar = False,
             minor_ticks = [0..<length (action_descriptions (dataset loader))],
             ticks = [0..<length (action_descriptions (dataset loader))],
             ticklabels = action_descriptions (dataset loader),
             xticklabels_rotation = 90,
             ylabel = ''True label'', xlabel = ''Predicted label'',
             minor_grid = True\<rparr>))"
  unfolding confusion_plot_run_def Let_def
  by (simp only: assms ebind_Inr prod.case)

lemma confusion_plot_run_Inr:
  assumes "confusion_plot_run lib a run = Inr eff"
  shows "\<exists>run_dir' loss accuracy label best_model params' model loader
            predictions targets confidences overall_accuracy confusion fig.
           load_run lib run (data a) None =
             Inr ((run_dir', loss, accuracy, label, best_model, params'), model, loader) \<and>
           predict lib model loader (cuda params') = Inr (predictions, targets, confidences) \<and>
           accuracy_score lib targets predictions = Inr overall_accuracy \<and>
           confusion_matrix lib targets predictions = Inr confusion \<and>
           eff = Savefig (os_path_join run_dir' ''confusion.pdf'') (Some ''tight'') (Heatmap fig) \<and>
           heat_data fig = confusion \<and>
           mask fig = map (map (\<lambda>c. c = 0)) confusion \<and>
           heat_title fig = label @ '': (Overall Accuracy: '' @ format_percent lib overall_accuracy \<and>
           ticklabels fig = action_descriptions (dataset loader)"
proof -
  obtain x where l0: "load_run lib run (data a) None = Inr x"
    using assms unfolding confusion_plot_run_def
    by (cases "load_run lib run (data a) None") (simp_all only: ebind_Inl sum.distinct)
  obtain run_dir' loss accuracy label best_model params' model loader where
    x: "x = ((run_dir', loss, accuracy, label, best_model, params'), model, loader)"
    by (cases x) auto
  note l = l0 [unfolded x]
  obtain y where p0: "predict lib model loader (cuda params') = Inr y"
    using assms unfolding confusion_plot_run_def Let_def
    by (cases "predict lib model loader (cuda params')")
      (simp_all only: l ebind_Inr ebind_Inl prod.case sum.distinct)
  obtain predictions targets confidences where y: "y = (predictions, targets, confidences)"
    by (cases y)
  note p = p0 [unfolded y]
  obtain overall_accuracy where s: "accuracy_score lib targets predictions = Inr overall_accuracy"
    using assms unfolding confusion_plot_run_def Let_def
    by (cases "accuracy_score lib targets predictions")
      (simp_all only: l p ebind_Inr ebind_Inl prod.case sum.distinct)
  obtain confusion where c: "confusion_matrix lib targets predictions = Inr confusion"
    using assms unfolding confusion_plot_run_def Let_def
    by (cases "confusion_matrix lib targets predictions")
      (simp_all only: l p s ebind_Inr ebind_Inl prod.case sum.distinct)
  define fig where "fig =
          \<lparr>figsize = (30, 30),
             heat_title = label @ '': (Overall Accuracy: '' @ format_percent lib overall_accuracy,
             heat_data = confusion, annot = True, fmt = ''d'',
             mask = map (map (\<lambda>c. c = 0)) confusion, cbar = False,
             minor_ticks = [0..<length (action_descriptions (dataset loader))],
             ticks = [0..<length (action_descriptions (dataset loader))],
             ticklabels = action_descriptions (dataset loader),
             xticklabels_rotation = 90,
             ylabel = ''True label'', xlabel = ''Predicted label'',
             minor_grid = True\<rparr>"
  have e: "eff = Savefig (os_path_join run_dir' ''confusion.pdf'') (Some ''tight'') (Heatmap fig)"
    using assms confusion_plot_run_unfold [OF l p s c] unfolding fig_def by simp
  have f: "heat_data fig = confusion" "mask fig = map (map (\<lambda>c. c = 0)) confusion"
    "heat_title fig = label @ '': (Overall Accuracy: '' @ format_percent lib overall_accuracy"
    "ticklabels fig = action_descriptions (dataset loader)"
    unfolding fig_def by simp_all
  from l p s c e f show ?thesis
    by blast
qed

lemma confusion_plot_success:
  assumes "confusion_plot lib a runs = (effs, None)"
  shows "list_comp (confusion_plot_run lib a) runs = Inr effs"
  using assms
proof (induction runs arbitrary: effs)
  case Nil
  then show ?case by simp
next
  case (Cons run runs)
  show ?case
  proof (cases "confusion_plot_run lib a run")
    case (Inl e)
    with Cons.prems show ?thesis by simp
  next
    case (Inr saved)
    obtain es r where rest: "confusion_plot lib a runs = (es, r)"
      by (cases "confusion_plot lib a runs")
    with Inr Cons.prems have "effs = saved # es" "r = None"
      by (simp_all add: seq_def)
    with Cons.IH [of es] rest Inr show ?thesis by simp
  qed
qed

text \<open>
  Claim C4. In confusion mode, when no exception ends the run, one figure is saved for
  every run, in order: its heat map shows exactly the matrix that sklearn's
  \<^verbatim>\<open>confusion_matrix(targets, predictions)\<close> returns for the targets and predictions
  that \<^verbatim>\<open>predict\<close> returns on the run's model and loader (cells equal to zero are masked,
  that is left blank), and the accuracy in its title is exactly what sklearn's
  \<^verbatim>\<open>accuracy_score(targets, predictions)\<close> returns, formatted as a percentage.
\<close>

theorem confusion_plot_shows_sklearn_results:
  assumes "confusion_plot lib a runs = (effs, None)"
  shows "length effs = length runs \<and>
         (\<forall>i < length runs.
            \<exists>run_dir' loss accuracy label best_model params' model loader
               predictions targets confidences overall_accuracy confusion fig.
              load_run lib (runs ! i) (data a) None =
                Inr ((run_dir', loss, accuracy, label, best_model, params'), model, loader) \<and>
              predict lib model loader (cuda params') = Inr (predictions, targets, confidences) \<and>
              accuracy_score lib targets predictions = Inr overall_accuracy \<and>
              confusion_matrix lib targets predictions = Inr confusion \<and>
              effs ! i =
                Savefig (os_path_join run_dir' ''confusion.pdf'') (Some ''tight'') (Heatmap fig) \<and>
              heat_data fig = confusion \<and>
              mask fig = map (map (\<lambda>c. c = 0)) confusion \<and>
              heat_title fig =
                label @ '': (Overall Accuracy: '' @ format_percent lib overall_accuracy \<and>
              ticklabels fig = action_descriptions (dataset loader))"
proof -
  from confusion_plot_success [OF assms]
  have len: "length effs = length runs"
    and each: "\<forall>i < length runs. confusion_plot_run lib a (runs ! i) = Inr (effs ! i)"
    by (simp_all add: list_comp_Inr)
  show ?thesis
  proof (intro conjI allI impI)
    show "length effs = length runs" by (rule len)
  next
    fix i
    assume "i < length runs"
    with each have "confusion_plot_run lib a (runs ! i) = Inr (effs ! i)"
      by blast
    then show "\<exists>run_dir' loss accuracy label best_model params' model loader
               predictions targets confidences overall_accuracy confusion fig.
              load_run lib (runs ! i) (data a) None =
                Inr ((run_dir', loss, accuracy, label, best_model, params'), model, loader) \<and>
              predict lib model loader (cuda params') = Inr (predictions, targets, confidences) \<and>
              accuracy_score lib targets predictions = Inr overall_accuracy \<and>
              confusion_matrix lib targets predictions = Inr confusion \<and>
              effs ! i =
                Savefig (os_path_join run_dir' ''confusion.pdf'') (Some ''tight'') (Heatmap fig) \<and>
              heat_data fig = confusion \<and>
              mask fig = map (map (\<lambda>c. c = 0)) confusion \<and>
              heat_title fig =
                label @ '': (Overall Accuracy: '' @ format_percent lib overall_accuracy \<and>
              ticklabels fig = action_descriptions (dataset loader)"
      by (rule confusion_plot_run_Inr)
  qed
qed

lemma example_confusion_plot:
  "confusion_plot example_lib example_args [''runs/a''] =
     ([Savefig ''runs/a/confusion.pdf'' (Some ''tight'')
        (Heatmap
          \<lparr>figsize = (30, 30), heat_title = ''a: (Overall Accuracy: 50.00%'',
             heat_data = [[1, 1], [0, 0]], annot = True, fmt = ''d'',
             mask = [[False, False], [True, True]], cbar = False,
             minor_ticks = [0, 1], ticks = [0, 1],
             ticklabels = [''walk'', ''run''], xticklabels_rotation = 90,
             ylabel = ''True label'', xlabel = ''Predicted label'',
             minor_grid = True\<rparr>)], None)"
  by code_simp

lemma example_confusion_parts:
  "load_run example_lib ''runs/a'' None None =
     Inr ((''runs/a'', [3, 2], [50, 70], ''a'', ''runs/a/best'', \<lparr>cuda = False\<rparr>),
          example_model, example_loader None)"
  "example_confusion [0, 0] [0, 1] = Inr [[1, 1], [0, 0]]"
  "example_accuracy [0, 0] [0, 1] = Inr 50"
  by (simp add: example_lib_def example_info_def) code_simp+

theorem confusion_plot_shows_sklearn_results_witness:
  "confusion_plot example_lib example_args [''runs/a''] =
     ([Savefig ''runs/a/confusion.pdf'' (Some ''tight'')
        (Heatmap
          \<lparr>figsize = (30, 30), heat_title = ''a: (Overall Accuracy: 50.00%'',
             heat_data = [[1, 1], [0, 0]], annot = True, fmt = ''d'',
             mask = [[False, False], [True, True]], cbar = False,
             minor_ticks = [0, 1], ticks = [0, 1],
             ticklabels = [''walk'', ''run''], xticklabels_rotation = 90,
             ylabel = ''True label'', xlabel = ''Predicted label'',
             minor_grid = True\<rparr>)], None) \<and>
   load_run example_lib ''runs/a'' None None =
     Inr ((''runs/a'', [3, 2], [50, 70], ''a'', ''runs/a/best'', \<lparr>cuda = False\<rparr>),
          example_model, example_loader None) \<and>
   predict example_lib example_model (example_loader None) False =
     Inr ([0, 1], [0, 0], [[[2, 1]], [[0, 3]]]) \<and>
   confusion_matrix example_lib [0, 0] [0, 1] = Inr [[1, 1], [0, 0]] \<and>
   accuracy_score example_lib [0, 0] [0, 1] = Inr 50 \<and>
   (\<exists>fig. [Savefig ''runs/a/confusion.pdf'' (Some ''tight'')
        (Heatmap
          \<lparr>figsize = (30, 30), heat_title = ''a: (Overall Accuracy: 50.00%'',
             heat_data = [[1, 1], [0, 0]], annot = True, fmt = ''d'',
             mask = [[False, False], [True, True]], cbar = False,
             minor_ticks = [0, 1], ticks = [0, 1],
             ticklabels = [''walk'', ''run''], xticklabels_rotation = 90,
             ylabel = ''True label'', xlabel = ''Predicted label'',
             minor_grid = True\<rparr>)] ! 0 =
          Savefig ''runs/a/confusion.pdf'' (Some ''tight'') (Heatmap fig) \<and>
        mask fig = map (map (\<lambda>c. c = 0)) (heat_data fig))"
proof -
  note th = confusion_plot_shows_sklearn_results [OF example_confusion_plot]
  from th have "\<exists>run_dir' fig. [Savefig ''runs/a/confusion.pdf'' (Some ''tight'')
        (Heatmap
          \<lparr>figsize = (30, 30), heat_title = ''a: (Overall Accuracy: 50.00%'',
             heat_data = [[1, 1], [0, 0]], annot = True, fmt = ''d'',
             mask = [[False, False], [True, True]], cbar = False,
             minor_ticks = [0, 1], ticks = [0, 1],
             ticklabels = [''walk'', ''run''], xticklabels_rotation = 90,
             ylabel = ''True label'', xlabel = ''Predicted label'',
             minor_grid = True\<rparr>)] ! 0 =
          Savefig (os_path_join run_dir' ''confusion.pdf'') (Some ''tight'') (Heatmap fig) \<and>
        mask fig = map (map (\<lambda>c. c = 0)) (heat_data fig)"
    by fastforce
  then have f: "\<exists>fig. [Savefig ''runs/a/confusion.pdf'' (Some ''tight'')
        (Heatmap
          \<lparr>figsize = (30, 30), heat_title = ''a: (Overall Accuracy: 50.00%'',
             heat_data = [[1, 1], [0, 0]], annot = True, fmt = ''d'',
             mask = [[False, False], [True, True]], cbar = False,
             minor_ticks = [0, 1], ticks = [0, 1],
             ticklabels = [''walk'', ''run''], xticklabels_rotation = 90,
             ylabel = ''True label'', xlabel = ''Predicted label'',
             minor_grid = True\<rparr>)] ! 0 =
          Savefig ''runs/a/confusion.pdf'' (Some ''tight'') (Heatmap fig) \<and>
        mask fig = map (map (\<lambda>c. c = 0)) (heat_data fig)"
    by auto
  have "confusion_matrix example_lib [0, 0] [0, 1] = Inr [[1, 1], [0, 0]]"
    "accuracy_score example_lib [0, 0] [0, 1] = Inr 50"
    using example_confusion_parts by (simp_all add: example_lib_def)
  then show ?thesis
    using example_confusion_plot example_predict example_confusion_parts(1) f
    by simp
qed

section \<open>Where the summary table goes\<close>

text \<open>
  Claim C5, as amended. In status mode and in multi-eval mode, when the summary table is
  built without an exception: if \<^verbatim>\<open>-o/--output\<close> is given with a value that is not the
  empty string, the table is written as CSV without the index column to that path and
  nothing is printed; if the flag is absent, or its value is the empty string, the table
  is printed to standard output and no file is written.
\<close>

theorem summary_written_or_printed:
  "(status_summary lib runs = Inr t \<longrightarrow>
      display_status lib a runs =
        (case output a of
           None \<Rightarrow> ([Print t], None)
         | Some path \<Rightarrow>
             if path = [] then ([Print t], None) else ([To_csv path t False], None)))
   \<and> (offset_summary lib a runs = Inr t' \<longrightarrow>
      offset_eval lib a runs =
        (case output a of
           None \<Rightarrow> ([Print t'], None)
         | Some path \<Rightarrow>
             if path = [] then ([Print t'], None) else ([To_csv path t' False], None)))"
  by (simp add: display_status_def offset_eval_def truthy_def split: option.splits)

theorem summary_written_or_printed_witness:
  "status_summary example_lib [''runs/a'', ''runs/b''] =
     Inr [[(''best_acc'', 90), (''multi_offset_acc'', 0)],
          [(''best_acc'', 70), (''multi_offset_acc'', 0)]] \<and>
   display_status example_lib (example_args\<lparr>output := Some ''status.csv''\<rparr>)
       [''runs/a'', ''runs/b''] =
     ([To_csv ''status.csv'' [[(''best_acc'', 90), (''multi_offset_acc'', 0)],
                              [(''best_acc'', 70), (''multi_offset_acc'', 0)]] False], None) \<and>
   offset_eval example_lib example_args [''runs/a'', ''runs/b''] =
     ([Print [[(''best_acc'', 90), (''multi_offset_acc'', 100)],
              [(''best_acc'', 70), (''multi_offset_acc'', 100)]]], None)"
proof -
  have o: "output example_args = None"
    by (simp add: example_args_def)
  have 1: "display_status example_lib (example_args\<lparr>output := Some ''status.csv''\<rparr>)
       [''runs/a'', ''runs/b''] =
     ([To_csv ''status.csv'' [[(''best_acc'', 90), (''multi_offset_acc'', 0)],
                              [(''best_acc'', 70), (''multi_offset_acc'', 0)]] False], None)"
    using summary_written_or_printed
      [of example_lib "[''runs/a'', ''runs/b'']" _ "example_args\<lparr>output := Some ''status.csv''\<rparr>"]
      example_status_summary by simp
  have 2: "offset_eval example_lib example_args [''runs/a'', ''runs/b''] =
     ([Print [[(''best_acc'', 90), (''multi_offset_acc'', 100)],
              [(''best_acc'', 70), (''multi_offset_acc'', 100)]]], None)"
    using summary_written_or_printed
      [of example_lib "[''runs/a'', ''runs/b'']" _ example_args]
      example_offset_summary [of example_args] o by simp
  show ?thesis using example_status_summary 1 2 by simp
qed

text \<open>The claim as the specification words it fails: the flag is given, with the empty
  string as its value, and the table is printed, not written.\<close>

theorem output_flag_given_counterexample:
  "output_flag \<lparr>positionals = [''status''], data_flag = None, output_flag = Some ''''\<rparr> \<noteq> None \<and>
   script example_lib \<lparr>positionals = [''status''], data_flag = None, output_flag = Some ''''\<rparr> =
     ([Print [[(''best_acc'', 90), (''multi_offset_acc'', 0)],
              [(''best_acc'', 70), (''multi_offset_acc'', 0)]]], None)"
proof -
  let ?a = "\<lparr>type = ''status'', run_dir = ''runs/'', data = None, output = Some ''''\<rparr>"
  have p: "parse_args \<lparr>positionals = [''status''], data_flag = None, output_flag = Some ''''\<rparr>
      = Inr ?a"
    by (simp add: parse_args_def choices_def)
  have r: "main_runs example_lib ?a = [''runs/a'', ''runs/b'']"
    using example_runs by (simp add: main_runs_def example_args_def)
  have "main example_lib ?a = display_status example_lib ?a [''runs/a'', ''runs/b'']"
    by (simp add: main_by_type r)
  also have "\<dots> = ([Print [[(''best_acc'', 90), (''multi_offset_acc'', 0)],
              [(''best_acc'', 70), (''multi_offset_acc'', 0)]]], None)"
    by (simp add: display_status_def example_status_summary truthy_def)
  finally show ?thesis
    using p by (simp add: script_def)
qed

section \<open>The training curves\<close>

text \<open>The loop of lines 30 to 32 adds one curve per run to each of the two axes.\<close>

lemma train_plot_loop:
  "foldl (\<lambda>(ax1, ax2) (run_dir', loss, accuracy, label, best_model, params').
            (ax1\<lparr>lines := lines ax1 @ [(loss, label)]\<rparr>,
             ax2\<lparr>lines := lines ax2 @ [(accuracy, label)]\<rparr>))
     (a1, a2) run_infos =
   (a1\<lparr>lines := lines a1 @ map (\<lambda>(_, loss, _, label, _, _). (loss, label)) run_infos\<rparr>,
    a2\<lparr>lines := lines a2 @ map (\<lambda>(_, _, accuracy, label, _, _). (accuracy, label)) run_infos\<rparr>)"
proof (induction run_infos arbitrary: a1 a2)
  case Nil
  show ?case by simp
next
  case (Cons i run_infos)
  obtain r l c b m q where i: "i = (r, l, c, b, m, q)"
    by (cases i)
  show ?case
    using Cons.IH [of "a1\<lparr>lines := lines a1 @ [(l, b)]\<rparr>" "a2\<lparr>lines := lines a2 @ [(c, b)]\<rparr>"]
    by (simp add: i)
qed

text \<open>
  Claim C6. In train mode, when \<^verbatim>\<open>get_run_info\<close> succeeds on every run, exactly one
  file is saved, \<^verbatim>\<open>train_progress.pdf\<close>, holding two subplots one above the other:
  the first has the evaluation loss curve of every run, the second the evaluation
  accuracy curve of every run, in the order of the runs and labelled by the run's label,
  and the second has its vertical axis set to the range from 0 to 100.
\<close>

theorem train_plot_saves_one_pdf:
  assumes "length infos = length runs"
    and "\<forall>i < length runs. get_run_info lib (runs ! i) = Inr (infos ! i)"
  shows "\<exists>ax1 ax2.
           train_plot lib runs = ([Savefig ''train_progress.pdf'' None (Subplots_2_1 ax1 ax2)], None)
         \<and> title ax1 = ''Evaluation Loss''
         \<and> lines ax1 = map (\<lambda>(_, loss, _, label, _, _). (loss, label)) infos
         \<and> title ax2 = ''Evaluation Accuracy''
         \<and> lines ax2 = map (\<lambda>(_, _, accuracy, label, _, _). (accuracy, label)) infos
         \<and> ylim ax2 = Some (0, 100)"
proof -
  have "list_comp (get_run_info lib) runs = Inr infos"
    using assms by (simp add: list_comp_Inr)
  then show ?thesis
    using train_plot_loop
      [of "\<lparr>title = ''Evaluation Loss'', lines = [], ylim = None, legend = None\<rparr>"
          "\<lparr>title = ''Evaluation Accuracy'', lines = [], ylim = None, legend = None\<rparr>"
          infos]
    by (simp add: train_plot_def)
qed

lemma example_infos:
  "\<forall>i < length [''runs/a'', ''runs/b''].
     get_run_info example_lib ([''runs/a'', ''runs/b''] ! i) =
       Inr ([(''runs/a'', [3, 2], [50, 70], ''a'', ''runs/a/best'', \<lparr>cuda = False\<rparr>),
            (''runs/b'', [4, 1], [40, 90], ''b'', ''runs/b/best'', \<lparr>cuda = False\<rparr>)] ! i)"
  by (simp add: less_Suc_eq_0_disj numeral_2_eq_2 example_lib_def example_info_def)

theorem train_plot_saves_one_pdf_witness:
  "train_plot example_lib [''runs/a'', ''runs/b''] =
     ([Savefig ''train_progress.pdf'' None
        (Subplots_2_1
           \<lparr>title = ''Evaluation Loss'', lines = [([3, 2], ''a''), ([4, 1], ''b'')],
              ylim = None, legend = None\<rparr>
           \<lparr>title = ''Evaluation Accuracy'', lines = [([50, 70], ''a''), ([40, 90], ''b'')],
              ylim = Some (0, 100), legend = Some (''best'', 6)\<rparr>)], None)"
proof -
  have l: "length [(''runs/a'', [3, 2], [50, 70 :: int], ''a'', ''runs/a/best'', \<lparr>cuda = False\<rparr>),
            (''runs/b'', [4, 1], [40, 90], ''b'', ''runs/b/best'', \<lparr>cuda = False\<rparr>)]
         = length [''runs/a'', ''runs/b'']"
    by simp
  from train_plot_saves_one_pdf [OF l example_infos]
  obtain ax1 ax2 where
    "train_plot example_lib [''runs/a'', ''runs/b''] =
       ([Savefig ''train_progress.pdf'' None (Subplots_2_1 ax1 ax2)], None)"
    by blast
  moreover have "train_plot example_lib [''runs/a'', ''runs/b''] =
     ([Savefig ''train_progress.pdf'' None
        (Subplots_2_1
           \<lparr>title = ''Evaluation Loss'', lines = [([3, 2], ''a''), ([4, 1], ''b'')],
              ylim = None, legend = None\<rparr>
           \<lparr>title = ''Evaluation Accuracy'', lines = [([50, 70], ''a''), ([40, 90], ''b'')],
              ylim = Some (0, 100), legend = Some (''best'', 6)\<rparr>)], None)"
    by code_simp
  ultimately show ?thesis by simp
qed

section \<open>Exceptions leave main\<close>








section \<open>The order of the summary table\<close>









section \<open>What predict returns\<close>

text \<open>\<open>first_max_index\<close> is an argmax: it points at a greatest element, the first one.\<close>

lemma first_max_index_argmax:
  assumes "row \<noteq> []"
  shows "first_max_index row < length row
       \<and> (\<forall>v \<in> set row. v \<le> row ! first_max_index row)
       \<and> (\<forall>j < first_max_index row. row ! j < row ! first_max_index row)"
  using assms
proof (induction row)
  case Nil
  then show ?case by simp
next
  case (Cons x xs)
  show ?case
  proof (cases "list_all (\<lambda>y. y \<le> x) xs")
    case True
    then show ?thesis by (simp add: list_all_iff)
  next
    case False
    then obtain y where y: "y \<in> set xs" "x < y"
      by (auto simp: list_all_iff)
    then have "xs \<noteq> []" by auto
    with Cons.IH have ih:
      "first_max_index xs < length xs"
      "\<forall>v \<in> set xs. v \<le> xs ! first_max_index xs"
      "\<forall>j < first_max_index xs. xs ! j < xs ! first_max_index xs"
      by simp_all
    from y ih(2) have lt: "x < xs ! first_max_index xs"
      by (meson less_le_trans)
    have "\<forall>j < Suc (first_max_index xs). (x # xs) ! j < xs ! first_max_index xs"
      using lt ih(3) by (auto simp: less_Suc_eq_0_disj)
    with False ih lt show ?thesis
      by (auto simp: less_imp_le)
  qed
qed

lemma predict_loop_list_comp:
  "predict_loop lib model bs (ps, ts, cs) =
     ebind (list_comp (predict_batch lib model) bs) (\<lambda>rs.
       Inr (ps @ map fst rs, ts @ map (\<lambda>r. fst (snd r)) rs, cs @ map (\<lambda>r. snd (snd r)) rs))"
proof (induction bs arbitrary: ps ts cs)
  case Nil
  show ?case by simp
next
  case (Cons b bs)
  show ?case
  proof (cases "predict_batch lib model b")
    case (Inl e)
    then show ?thesis by simp
  next
    case (Inr r)
    obtain p t c where r: "r = (p, t, c)"
      by (cases r)
    show ?thesis
      using Inr r Cons.IH [of "ps @ [p]" "ts @ [t]" "cs @ [c]"]
      by (cases "list_comp (predict_batch lib model) bs") simp_all
  qed
qed

lemma predict_batch_Inr:
  "predict_batch lib model (x, y) = Inr (p, t, c) \<longleftrightarrow>
     (\<exists>logits. model x = Inr logits \<and> logits \<noteq> [] \<and> [] \<notin> set logits \<and> y \<noteq> [] \<and>
        p = hd (map first_max_index logits) \<and> t = hd y \<and> c = softmax lib logits)"
proof (cases "model x")
  case (Inl e)
  then show ?thesis by (simp add: predict_batch_def)
next
  case (Inr logits)
  show ?thesis
  proof (cases "list_ex (\<lambda>row. row = []) logits")
    case True
    then have "[] \<in> set logits"
      by (auto simp: list_ex_iff)
    with Inr True show ?thesis
      by (simp add: predict_batch_def torch_max_1_def)
  next
    case False
    then have ne: "[] \<notin> set logits"
      by (auto simp: list_ex_iff)
    show ?thesis
      using Inr False ne
      by (cases y; cases logits) (auto simp: predict_batch_def torch_max_1_def data_0_def)
  qed
qed

text \<open>
  Claim C9, as amended. When \<^verbatim>\<open>predict\<close> returns, it returns three lists of the length
  of the list of batches the loader yields, one entry per batch, in order: the entry of
  \<^verbatim>\<open>predictions\<close> is element 0 of the argmax over dimension 1 of the model's logits
  for the batch, that is the argmax of the first row, and it is the whole argmax when the
  batch holds one sample; the entry of \<^verbatim>\<open>targets\<close> is element 0 of the labels of the
  batch; the entry of \<^verbatim>\<open>confidences\<close> is the softmax over dimension 1 of those logits.
  And \<^verbatim>\<open>predict\<close> returns whenever the model returns, for every batch, logits with at
  least one row and no empty row, and the batch has at least one label.
\<close>

theorem predict_one_entry_per_batch:
  "(predict lib model loader cuda' = Inr (predictions, targets, confidences) \<longrightarrow>
      length predictions = length (batches loader) \<and>
      length targets = length (batches loader) \<and>
      length confidences = length (batches loader) \<and>
      (\<forall>i < length (batches loader). \<exists>x y logits.
          batches loader ! i = (x, y) \<and> model x = Inr logits \<and>
          logits \<noteq> [] \<and> hd logits \<noteq> [] \<and> y \<noteq> [] \<and>
          torch_max_1 logits = Inr (map first_max_index logits) \<and>
          predictions ! i = hd (map first_max_index logits) \<and>
          predictions ! i < length (hd logits) \<and>
          (\<forall>v \<in> set (hd logits). v \<le> hd logits ! (predictions ! i)) \<and>
          (length logits = 1 \<longrightarrow> [predictions ! i] = map first_max_index logits) \<and>
          targets ! i = hd y \<and>
          confidences ! i = softmax lib logits))
   \<and> ((\<forall>b \<in> set (batches loader). \<exists>logits.
          model (fst b) = Inr logits \<and> logits \<noteq> [] \<and> [] \<notin> set logits \<and> snd b \<noteq> []) \<longrightarrow>
       (\<exists>r. predict lib model loader cuda' = Inr r))"
proof (intro conjI impI allI)
  assume p: "predict lib model loader cuda' = Inr (predictions, targets, confidences)"
  let ?bs = "batches loader"
  from p obtain rs where rs: "list_comp (predict_batch lib model) ?bs = Inr rs"
    and ps: "predictions = map fst rs"
    and ts: "targets = map (\<lambda>r. fst (snd r)) rs"
    and cs: "confidences = map (\<lambda>r. snd (snd r)) rs"
    by (auto simp: predict_def predict_loop_list_comp ebind_eq_Inr)
  from rs have len: "length rs = length ?bs"
    and each: "\<forall>i < length ?bs. predict_batch lib model (?bs ! i) = Inr (rs ! i)"
    by (simp_all add: list_comp_Inr)
  show "length predictions = length ?bs" "length targets = length ?bs"
    "length confidences = length ?bs"
    using len ps ts cs by simp_all
  fix i
  assume i: "i < length ?bs"
  obtain x y where b: "?bs ! i = (x, y)"
    by (cases "?bs ! i")
  obtain q t c where r: "rs ! i = (q, t, c)"
    by (cases "rs ! i")
  from each i have "predict_batch lib model (?bs ! i) = Inr (rs ! i)"
    by blast
  with b r have "predict_batch lib model (x, y) = Inr (q, t, c)"
    by simp
  then obtain logits where l: "model x = Inr logits" "logits \<noteq> []" "[] \<notin> set logits" "y \<noteq> []"
    "q = hd (map first_max_index logits)" "t = hd y" "c = softmax lib logits"
    unfolding predict_batch_Inr by blast
  from l(2,3) have row: "hd logits \<noteq> []"
    by (cases logits) auto
  from l(2) have q: "q = first_max_index (hd logits)"
    using l(5) by (cases logits) simp_all
  have tm: "torch_max_1 logits = Inr (map first_max_index logits)"
    using l(3) by (auto simp: torch_max_1_def list_ex_iff)
  have one: "length logits = 1 \<longrightarrow> [q] = map first_max_index logits"
    using q by (cases logits) auto
  have "predictions ! i = q" "targets ! i = t" "confidences ! i = c"
    using i len ps ts cs r by simp_all
  with b l row q tm one first_max_index_argmax [OF row]
  show "\<exists>x y logits.
          batches loader ! i = (x, y) \<and> model x = Inr logits \<and>
          logits \<noteq> [] \<and> hd logits \<noteq> [] \<and> y \<noteq> [] \<and>
          torch_max_1 logits = Inr (map first_max_index logits) \<and>
          predictions ! i = hd (map first_max_index logits) \<and>
          predictions ! i < length (hd logits) \<and>
          (\<forall>v \<in> set (hd logits). v \<le> hd logits ! (predictions ! i)) \<and>
          (length logits = 1 \<longrightarrow> [predictions ! i] = map first_max_index logits) \<and>
          targets ! i = hd y \<and>
          confidences ! i = softmax lib logits"
    by (intro exI [of _ x] exI [of _ y] exI [of _ logits]) simp
next
  assume ok: "\<forall>b \<in> set (batches loader). \<exists>logits.
          model (fst b) = Inr logits \<and> logits \<noteq> [] \<and> [] \<notin> set logits \<and> snd b \<noteq> []"
  have "\<forall>b \<in> set (batches loader). \<exists>r. predict_batch lib model b = Inr r"
  proof
    fix b
    assume "b \<in> set (batches loader)"
    with ok obtain logits where
      "model (fst b) = Inr logits" "logits \<noteq> []" "[] \<notin> set logits" "snd b \<noteq> []"
      by blast
    then have "predict_batch lib model (fst b, snd b) =
        Inr (hd (map first_max_index logits), hd (snd b), softmax lib logits)"
      unfolding predict_batch_Inr by blast
    then show "\<exists>r. predict_batch lib model b = Inr r"
      by simp
  qed
  then have "\<exists>rs. list_comp (predict_batch lib model) (batches loader) = Inr rs"
    by (rule list_comp_total)
  then show "\<exists>r. predict lib model loader cuda' = Inr r"
    by (auto simp: predict_def predict_loop_list_comp)
qed

theorem predict_one_entry_per_batch_witness:
  "predict example_lib example_model (example_loader None) False =
     Inr ([0, 1], [0, 0], [[[2, 1]], [[0, 3]]]) \<and>
   length [0, 1 :: nat] = length (batches (example_loader None)) \<and>
   list_all (\<lambda>b. \<exists>logits. example_model (fst b) = Inr logits \<and> logits \<noteq> [] \<and>
                [] \<notin> set logits \<and> snd b \<noteq> []) (batches (example_loader None)) \<and>
   (\<exists>r. predict example_lib example_model (example_loader None) False = Inr r)"
proof -
  note th = predict_one_entry_per_batch
    [of example_lib example_model "example_loader None" False
        "[0, 1]" "[0, 0]" "[[[2, 1]], [[0, 3]]]"]
  have len: "length [0, 1 :: nat] = length (batches (example_loader None))"
    using th example_predict by simp
  have ok: "list_all (\<lambda>b. \<exists>logits. example_model (fst b) = Inr logits \<and> logits \<noteq> [] \<and>
                [] \<notin> set logits \<and> snd b \<noteq> []) (batches (example_loader None))"
    by (simp add: example_batches example_model_def)
  then have "\<exists>r. predict example_lib example_model (example_loader None) False = Inr r"
    using th by (simp add: list_all_iff)
  with example_predict len ok show ?thesis by simp
qed

text \<open>The claim as the specification words it fails for a batch of two samples: the
  argmax over dimension 1 of the logits is the vector \<open>[1, 0]\<close>, and the entry of
  \<^verbatim>\<open>predictions\<close> is its element 0 alone.\<close>

lemma two_sample_predict:
  "predict example_lib two_sample_model two_sample_loader False =
     Inr ([1], [1], [[[1, 2], [3, 0]]])"
  by code_simp

theorem predictions_entry_counterexample:
  "\<not> (\<forall>(model :: (nat, int) model) (loader :: nat loader) predictions targets confidences.
        predict example_lib model loader False = Inr (predictions, targets, confidences) \<longrightarrow>
        (\<forall>i < length (batches loader). \<exists>logits.
            model (fst (batches loader ! i)) = Inr logits \<and>
            torch_max_1 logits = Inr [predictions ! i]))"
proof
  assume "\<forall>(model :: (nat, int) model) (loader :: nat loader) predictions targets confidences.
        predict example_lib model loader False = Inr (predictions, targets, confidences) \<longrightarrow>
        (\<forall>i < length (batches loader). \<exists>logits.
            model (fst (batches loader ! i)) = Inr logits \<and>
            torch_max_1 logits = Inr [predictions ! i])"
  with two_sample_predict
  have "\<forall>i < length (batches two_sample_loader). \<exists>logits.
            two_sample_model (fst (batches two_sample_loader ! i)) = Inr logits \<and>
            torch_max_1 logits = Inr [[1] ! i]"
    by blast
  then have "\<exists>logits. two_sample_model 0 = Inr logits \<and> torch_max_1 logits = Inr [1]"
    by (simp add: two_sample_loader_def)
  then have "torch_max_1 [[1, 2], [3, 0 :: int]] = Inr [1]"
    by (simp add: two_sample_model_def)
  then show False
    by (simp add: torch_max_1_def)
qed

section \<open>Ablation tables\<close>

lemma is_print_simps [simp]:
  "is_print (Print t) = True"
  "is_print (To_csv path t index) = False"
  "is_print (Savefig fname bbox fig) = False"
  by (simp_all add: is_print_def)

lemma ablation_loop_prints:
  "list_all is_print (fst (ablation_loop lib summary all_params ps))"
proof (induction ps)
  case Nil
  show ?case by simp
next
  case (Cons p ps)
  show ?case
  proof (cases "ebind (pivot_table lib summary ''best_acc'' p (remove1 p all_params)) (df_mean lib)")
    case (Inl e)
    then show ?thesis by simp
  next
    case (Inr table)
    obtain es r where rest: "ablation_loop lib summary all_params ps = (es, r)"
      by (cases "ablation_loop lib summary all_params ps")
    with Cons.IH have "list_all is_print es" by simp
    with Inr rest show ?thesis
      by (simp add: seq_def)
  qed
qed

text \<open>The table the loop prints for the parameter \<open>p\<close>: the mean of the pivot table of
  \<^verbatim>\<open>best_acc\<close> with \<open>p\<close> as columns and the other parameters as index.\<close>

lemma ablation_loop_success:
  assumes "ablation_loop lib summary all_params ps = (es, None)"
  shows "list_all2 (\<lambda>eff p. \<exists>table.
            eff = Print table \<and>
            ebind (pivot_table lib summary ''best_acc'' p (remove1 p all_params)) (df_mean lib)
              = Inr table) es ps"
  using assms
proof (induction ps arbitrary: es)
  case Nil
  then show ?case by simp
next
  case (Cons p ps)
  show ?case
  proof (cases "ebind (pivot_table lib summary ''best_acc'' p (remove1 p all_params)) (df_mean lib)")
    case (Inl e)
    with Cons.prems show ?thesis by simp
  next
    case (Inr table)
    obtain es' r where rest: "ablation_loop lib summary all_params ps = (es', r)"
      by (cases "ablation_loop lib summary all_params ps")
    with Inr Cons.prems have "es = Print table # es'" and "r = None"
      by (simp_all add: seq_def)
    with Cons.IH [of es'] rest Inr show ?thesis by simp
  qed
qed

text \<open>
  Claim C10. In ablation mode the \<^verbatim>\<open>-o/--output\<close> flag has no effect: whatever its
  value, \<^verbatim>\<open>main\<close> does the same; every effect is a \<^verbatim>\<open>print\<close> to standard output,
  so no file is written; and when no exception ends the run, exactly four tables are
  printed, the mean \<^verbatim>\<open>best_acc\<close> pivot tables for bidirectional, embed, hd and layers
  in this order, each indexed by the three other parameters.
\<close>

theorem ablation_ignores_output:
  assumes "type a = ''ablation''"
  shows "main lib (a\<lparr>output := out\<rparr>) = main lib a
       \<and> list_all is_print (fst (main lib a))
       \<and> (snd (main lib a) = None \<longrightarrow>
            (\<exists>summary t1 t2 t3 t4.
               fst (main lib a) = [Print t1, Print t2, Print t3, Print t4] \<and>
               ebind (pivot_table lib summary ''best_acc'' ''bidirectional''
                        [''embed'', ''hd'', ''layers'']) (df_mean lib) = Inr t1 \<and>
               ebind (pivot_table lib summary ''best_acc'' ''embed''
                        [''bidirectional'', ''hd'', ''layers'']) (df_mean lib) = Inr t2 \<and>
               ebind (pivot_table lib summary ''best_acc'' ''hd''
                        [''bidirectional'', ''embed'', ''layers'']) (df_mean lib) = Inr t3 \<and>
               ebind (pivot_table lib summary ''best_acc'' ''layers''
                        [''bidirectional'', ''embed'', ''hd'']) (df_mean lib) = Inr t4))"
proof (intro conjI impI)
  have m: "main lib a = ablation lib (main_runs lib a)"
    using assms by (simp add: main_by_type)
  have "main lib (a\<lparr>output := out\<rparr>) = ablation lib (main_runs lib (a\<lparr>output := out\<rparr>))"
    using assms by (simp add: main_by_type)
  then show "main lib (a\<lparr>output := out\<rparr>) = main lib a"
    using m by (simp add: main_runs_def)
  show "list_all is_print (fst (main lib a))"
    unfolding m ablation_def
    by (simp add: ablation_loop_prints split: sum.splits)
  assume ok: "snd (main lib a) = None"
  then obtain summary where
    loop: "main lib a = ablation_loop lib summary ablation_params ablation_params"
    unfolding m ablation_def by (auto split: sum.splits)
  obtain es where es: "ablation_loop lib summary ablation_params ablation_params = (es, None)"
    using ok loop by (cases "ablation_loop lib summary ablation_params ablation_params") simp
  from ablation_loop_success [OF es]
  obtain t1 t2 t3 t4 where
    "es = [Print t1, Print t2, Print t3, Print t4]"
    "ebind (pivot_table lib summary ''best_acc'' ''bidirectional''
              [''embed'', ''hd'', ''layers'']) (df_mean lib) = Inr t1"
    "ebind (pivot_table lib summary ''best_acc'' ''embed''
              [''bidirectional'', ''hd'', ''layers'']) (df_mean lib) = Inr t2"
    "ebind (pivot_table lib summary ''best_acc'' ''hd''
              [''bidirectional'', ''embed'', ''layers'']) (df_mean lib) = Inr t3"
    "ebind (pivot_table lib summary ''best_acc'' ''layers''
              [''bidirectional'', ''embed'', ''hd'']) (df_mean lib) = Inr t4"
    by (auto simp: ablation_params_def list_all2_Cons2)
  with loop es show "\<exists>summary t1 t2 t3 t4.
               fst (main lib a) = [Print t1, Print t2, Print t3, Print t4] \<and>
               ebind (pivot_table lib summary ''best_acc'' ''bidirectional''
                        [''embed'', ''hd'', ''layers'']) (df_mean lib) = Inr t1 \<and>
               ebind (pivot_table lib summary ''best_acc'' ''embed''
                        [''bidirectional'', ''hd'', ''layers'']) (df_mean lib) = Inr t2 \<and>
               ebind (pivot_table lib summary ''best_acc'' ''hd''
                        [''bidirectional'', ''embed'', ''layers'']) (df_mean lib) = Inr t3 \<and>
               ebind (pivot_table lib summary ''best_acc'' ''layers''
                        [''bidirectional'', ''embed'', ''hd'']) (df_mean lib) = Inr t4"
    by (intro exI [of _ summary] exI [of _ t1] exI [of _ t2] exI [of _ t3] exI [of _ t4]) simp
qed

lemma example_ablation:
  "main example_lib (example_args\<lparr>type := ''ablation''\<rparr>) =
     ([Print [[(''best_acc'', 70)]], Print [[(''best_acc'', 70)]],
       Print [[(''best_acc'', 70)]], Print [[(''best_acc'', 70)]]], None)"
  by code_simp

theorem ablation_ignores_output_witness:
  "type (example_args\<lparr>type := ''ablation''\<rparr>) = ''ablation'' \<and>
   main example_lib (example_args\<lparr>type := ''ablation'', output := Some ''ablation.csv''\<rparr>) =
     ([Print [[(''best_acc'', 70)]], Print [[(''best_acc'', 70)]],
       Print [[(''best_acc'', 70)]], Print [[(''best_acc'', 70)]]], None) \<and>
   snd (main example_lib (example_args\<lparr>type := ''ablation''\<rparr>)) = None \<and>
   list_all is_print (fst (main example_lib (example_args\<lparr>type := ''ablation''\<rparr>)))"
proof -
  have t: "type (example_args\<lparr>type := ''ablation''\<rparr>) = ''ablation''"
    by simp
  note th = ablation_ignores_output
    [OF t, of example_lib "Some ''ablation.csv''"]
  show ?thesis
    using th t example_ablation by simp
qed

end
